theory Spec2Isabelle
  imports Complex_Main
begin

section \<open>Preactivation residual networks (models/resnet\_v2.py)\<close>

text \<open>
  The module assembles a computation graph: every call of a layer primitive adds one
  operation to the graph and returns the tensor that operation produces. The embedding
  keeps that reading. A tensor is the term of the operations that produce it, each
  operation holding the arguments the source passes to it; the static shape of a tensor
  is computed from the term by \<open>get_shape\<close>. Variable scopes only prefix the names of
  the variables and are left out.
\<close>

subsection \<open>Values\<close>

text \<open>
  A static shape is a list of dimensions, a dimension that is not known statically being
  \<open>None\<close>; a shape of unknown rank is \<open>None\<close> as a whole. Python integers are
  unbounded, so depths, strides and rates are of type \<open>int\<close>.
\<close>

type_synonym dim = "int option"
type_synonym shape = "dim list"

datatype error = ValueError string | OverflowError string

text \<open>\<open>tf.nn.relu\<close> and tefla's \<open>prelu\<close>; \<open>initz.he_normal(scale=1)\<close>.\<close>

datatype activation = Relu | Prelu

datatype initializer = He_normal int

text \<open>
  The keyword arguments handed from layer to layer (\<open>**kwargs\<close>, \<open>**common_args\<close>,
  \<open>**conv_args\<close> ...). The module only ever uses the seven keys below; a key that is
  absent and a key bound to Python's \<open>None\<close> are both \<open>None\<close> here, which is also what
  \<open>kwargs.get\<close> makes of them.
\<close>

record layer_args =
  arg_is_training :: "bool option"
  arg_reuse :: "bool option"
  arg_batch_norm :: "bool option"
  arg_activation :: "activation option"
  arg_w_init :: "initializer option"
  arg_untie_biases :: "bool option"
  arg_padding :: "string option"

definition no_args :: layer_args where
  "no_args = \<lparr>arg_is_training = None, arg_reuse = None, arg_batch_norm = None,
     arg_activation = None, arg_w_init = None, arg_untie_biases = None, arg_padding = None\<rparr>"

text \<open>
  The operations of the graph, one constructor for each primitive the module calls:
  \<^item> \<open>Conv2d x n filter_size stride name args\<close> is \<open>conv2d(x, n, filter_size=..., stride=..., name=..., **args)\<close>;
  \<^item> \<open>Conv2d_same x n kernel_size stride rate name args\<close> is
    \<open>resnet_utils.conv2d_same(x, n, kernel_size, stride, rate=..., name=..., **args)\<close>;
  \<^item> \<open>Max_pool x name args\<close> is \<open>max_pool(x, name=..., **args)\<close>;
  \<^item> \<open>Batch_norm x name args\<close> is \<open>batch_norm(x, name=..., **args)\<close> (line 70 passes the
    activation as \<open>activation_fn\<close>, line 182 as \<open>activation\<close>; both are \<open>arg_activation\<close>);
  \<^item> \<open>Subsample x factor name\<close> is \<open>resnet_utils.subsample(x, factor, name)\<close>;
  \<^item> \<open>Reduce_mean x axes name keep_dims\<close> is \<open>tf.reduce_mean(x, axes, name=..., keep_dims=...)\<close>;
  \<^item> \<open>Softmax x name args\<close> is \<open>softmax(x, name=..., **args)\<close>;
  \<^item> \<open>Add x y\<close> is \<open>x + y\<close> on tensors;
  \<^item> \<open>Placeholder s\<close> is a tensor given from outside, of static shape \<open>s\<close>.

  An argument the source leaves at the default of the primitive is written out: the
  stride \<open>(1, 1)\<close> of \<open>conv2d\<close> at line 188 and the rate \<open>1\<close> of \<open>conv2d_same\<close> at
  line 174. Whether a primitive accepts the keywords it is handed is decided in the
  library and is not modelled: every call of a primitive yields its operation.
\<close>

datatype tensor =
    Placeholder "shape option"
  | Conv2d tensor int "int \<times> int" "int \<times> int" string layer_args
  | Conv2d_same tensor int int int int string layer_args
  | Max_pool tensor string layer_args
  | Batch_norm tensor string layer_args
  | is_Subsample: Subsample tensor int string
  | Reduce_mean tensor "int list" string bool
  | Softmax tensor string layer_args
  | Add tensor tensor

subsection \<open>Static shapes of the primitives\<close>

text \<open>
  Modelled from the spec: the layer primitives (\<open>tefla.core.layers\<close>,
  \<open>models.resnet_utils\<close>) are not among the source files; the spec treats them as black
  boxes "with documented input/output tensor shapes". The shape rules below are the
  documented ones: a strided operation on a \<open>[batch, height, width, channels]\<close> tensor
  maps a spatial extent \<open>n\<close> to \<open>(n - 1) / stride + 1\<close> (the formula the docstring of
  \<open>resnet_v2\<close> gives, with Python's floor division), a convolution sets the channel
  depth to its number of outputs, the max pool of the root block has stride 2 (the
  spec's "root stem's own stride of 4", after the stride-2 convolution), and
  normalisation and softmax keep the shape. \<open>None\<close> is the shape of a tensor the
  primitives do not accept (an input that is not of rank 4, a stride below 1, summands
  of different shapes).
\<close>

definition spatial :: "int \<Rightarrow> dim \<Rightarrow> dim" where
  "spatial s d = map_option (\<lambda>n. (n - 1) div s + 1) d"

fun resize :: "int \<Rightarrow> int \<Rightarrow> (dim \<Rightarrow> dim) \<Rightarrow> shape option \<Rightarrow> shape option" where
  "resize sh sw f (Some [b, h, w, c]) =
     (if 1 \<le> sh \<and> 1 \<le> sw then Some [b, spatial sh h, spatial sw w, f c] else None)"
| "resize sh sw f _ = None"

fun reduce_dims :: "int list \<Rightarrow> bool \<Rightarrow> nat \<Rightarrow> shape \<Rightarrow> shape" where
  "reduce_dims axes keep_dims i [] = []"
| "reduce_dims axes keep_dims i (d # ds) =
     (if int i \<in> set axes
      then (if keep_dims then Some 1 # reduce_dims axes keep_dims (Suc i) ds
            else reduce_dims axes keep_dims (Suc i) ds)
      else d # reduce_dims axes keep_dims (Suc i) ds)"

fun get_shape :: "tensor \<Rightarrow> shape option" where
  "get_shape (Placeholder s) = s"
| "get_shape (Conv2d x n filter_size stride name args) =
     resize (fst stride) (snd stride) (\<lambda>c. Some n) (get_shape x)"
| "get_shape (Conv2d_same x n kernel_size stride rate name args) =
     resize stride stride (\<lambda>c. Some n) (get_shape x)"
| "get_shape (Max_pool x name args) = resize 2 2 (\<lambda>c. c) (get_shape x)"
| "get_shape (Batch_norm x name args) = get_shape x"
| "get_shape (Subsample x factor name) = resize factor factor (\<lambda>c. c) (get_shape x)"
| "get_shape (Reduce_mean x axes name keep_dims) =
     map_option (reduce_dims axes keep_dims 0) (get_shape x)"
| "get_shape (Softmax x name args) = get_shape x"
| "get_shape (Add x y) = (if get_shape x = get_shape y then get_shape x else None)"

text \<open>
  Modelled from the spec: \<open>tefla.utils.util\<close> is not among the source files. Line 69
  reads the spec's "input depth" as \<open>util.last_dimension(inputs.get_shape(), min_rank=4)\<close>:
  the last dimension of the static shape, and a \<open>ValueError\<close> when the rank is unknown
  or below \<open>min_rank\<close>, or when the last dimension is unknown.
\<close>

definition last_dimension :: "shape option \<Rightarrow> nat \<Rightarrow> error + int" where
  "last_dimension s min_rank =
     (case s of
        None \<Rightarrow> Inl (ValueError ''dims of shape must be known but is None'')
      | Some dims \<Rightarrow>
          if length dims < min_rank \<or> dims = []
          then Inl (ValueError ''rank of shape must be at least min_rank'')
          else (case last dims of
                  None \<Rightarrow> Inl (ValueError ''last dimension shape must be known but is None'')
                | Some v \<Rightarrow> Inr v))"

subsection \<open>The bottleneck unit (lines 43-87)\<close>

definition bottleneck ::
  "tensor \<Rightarrow> int \<Rightarrow> int \<Rightarrow> int \<Rightarrow> int \<Rightarrow> string option \<Rightarrow> layer_args \<Rightarrow> error + tensor" where
  "bottleneck inputs depth depth_bottleneck stride rate name kwargs =
     (let is_training = arg_is_training kwargs;
          reuse = arg_reuse kwargs
      in case last_dimension (get_shape inputs) 4 of
           Inl e \<Rightarrow> Inl e
         | Inr depth_in \<Rightarrow>
            (let preact = Batch_norm inputs ''preact''
                   (no_args\<lparr>arg_activation := Some Relu, arg_is_training := is_training,
                      arg_reuse := reuse\<rparr>);
                 shortcut =
                   (if depth = depth_in then Subsample inputs stride ''shortcut''
                    else Conv2d preact depth (1, 1) (stride, stride) ''shortcut''
                      (no_args\<lparr>arg_is_training := is_training, arg_reuse := reuse,
                         arg_batch_norm := None, arg_activation := None\<rparr>));
                 residual = Conv2d preact depth_bottleneck (1, 1) (1, 1) ''conv1'' kwargs;
                 residual = Conv2d_same residual depth_bottleneck 3 stride rate ''conv2'' kwargs;
                 residual = Conv2d residual depth (1, 1) (1, 1) ''conv3''
                   (no_args\<lparr>arg_is_training := is_training, arg_reuse := reuse,
                      arg_batch_norm := None, arg_activation := None\<rparr>);
                 output = Add shortcut residual
             in Inr output))"

subsection \<open>Python numbers\<close>

text \<open>
  \<open>output_stride\<close> is an \<open>int\<close> when the caller passes it and a \<open>float\<close> after
  \<open>output_stride /= 4\<close> (the module imports \<open>division\<close> from \<open>__future__\<close>). A float is
  represented by its exact value. \<open>py_eq c t\<close> is Python's \<open>c == t\<close> for an int \<open>c\<close>,
  which compares an int with a float by value.
\<close>

datatype py_number = PyInt int | PyFloat rat

fun py_eq :: "int \<Rightarrow> py_number \<Rightarrow> bool" where
  "py_eq c (PyInt t) = (c = t)"
| "py_eq c (PyFloat t) = (of_int c = t)"

text \<open>
  True division of an int by an int returns the double nearest to the exact quotient
  (ties to the even mantissa) and raises \<open>OverflowError\<close> when that is beyond the range
  of a double. \<open>int_to_double n\<close> is that double for an integer quotient \<open>n\<close>: its
  magnitude is rounded to 53 significant bits.
\<close>

function mantissa_shift :: "int \<Rightarrow> nat" where
  "mantissa_shift a = (if a < 2 ^ 53 then 0 else Suc (mantissa_shift (a div 2)))"
  by pat_completeness auto
termination
  by (relation "measure nat") auto

declare mantissa_shift.simps [simp del]

definition round_half_even :: "int \<Rightarrow> nat \<Rightarrow> int" where
  "round_half_even a k =
     (let q = a div 2 ^ k; r = a mod 2 ^ k
      in (if 2 * r < 2 ^ k then q
          else if 2 ^ k < 2 * r then q + 1
          else if even q then q else q + 1) * 2 ^ k)"

definition int_to_double :: "int \<Rightarrow> error + rat" where
  "int_to_double n =
     (let a = \<bar>n\<bar>; v = round_half_even a (mantissa_shift a)
      in if 2 ^ 1024 \<le> v
         then Inl (OverflowError ''integer division result too large for a float'')
         else Inr (of_int (sgn n * v)))"

subsection \<open>Blocks and block stacking (models/resnet\_utils.py)\<close>

text \<open>
  Modelled from the spec: \<open>models/resnet_utils.py\<close> (\<open>Block\<close>, \<open>stack_blocks_dense\<close>) is
  not among the source files. The spec (3, Data model) gives a Block as "a name, a
  unit-function reference, and an ordered sequence of per-unit argument tuples (output
  depth, bottleneck depth, stride)".
\<close>

type_synonym unit_fn =
  "tensor \<Rightarrow> int \<Rightarrow> int \<Rightarrow> int \<Rightarrow> int \<Rightarrow> layer_args \<Rightarrow> error + tensor"

type_synonym unit_args = "int \<times> int \<times> int"

datatype block = Block (scope: string) (unit_fn: unit_fn) (args: "unit_args list")

text \<open>
  Modelled from the spec (4.1, Block stacking utility): "maintain \<open>current_stride = 1\<close>
  and \<open>rate = 1\<close>. For each unit (in block order, then intra-block order): if a target
  output_stride is set and \<open>current_stride == target\<close>, apply the unit with \<open>stride=1\<close>
  but multiply \<open>rate\<close> by the unit's nominal stride [...]; otherwise apply the unit with
  its nominal stride and multiply \<open>current_stride\<close> by that stride. After processing all
  units, if a target was requested but \<open>current_stride != target\<close>, fail with a
  configuration error".

  The state of the loop is the running tensor with the two accumulators. A unit function
  is called as \<open>unit_fn net depth depth_bottleneck stride rate kwargs\<close>; in the second
  branch the spec passes no rate, so the unit's default \<open>rate=1\<close> (line 43) applies. An
  error raised by a unit ends the loop. The spec gives the configuration error no
  message; the text below only names it.
\<close>

record stack_state =
  stack_net :: tensor
  current_stride :: int
  dilation_rate :: int

fun at_target :: "py_number option \<Rightarrow> int \<Rightarrow> bool" where
  "at_target None c = False"
| "at_target (Some t) c = py_eq c t"

fun apply_unit ::
  "py_number option \<Rightarrow> layer_args \<Rightarrow> stack_state \<Rightarrow> unit_fn \<times> unit_args \<Rightarrow> error + stack_state" where
  "apply_unit output_stride kwargs st (fn, unit_depth, unit_depth_bottleneck, unit_stride) =
     (if at_target output_stride (current_stride st)
      then (case fn (stack_net st) unit_depth unit_depth_bottleneck 1 (dilation_rate st) kwargs of
              Inl e \<Rightarrow> Inl e
            | Inr net \<Rightarrow>
                Inr (st\<lparr>stack_net := net, dilation_rate := dilation_rate st * unit_stride\<rparr>))
      else (case fn (stack_net st) unit_depth unit_depth_bottleneck unit_stride 1 kwargs of
              Inl e \<Rightarrow> Inl e
            | Inr net \<Rightarrow>
                Inr (st\<lparr>stack_net := net, current_stride := current_stride st * unit_stride\<rparr>)))"

fun stack_units ::
  "py_number option \<Rightarrow> layer_args \<Rightarrow> stack_state \<Rightarrow> (unit_fn \<times> unit_args) list
     \<Rightarrow> error + stack_state" where
  "stack_units output_stride kwargs st [] = Inr st"
| "stack_units output_stride kwargs st (u # us) =
     (case apply_unit output_stride kwargs st u of
        Inl e \<Rightarrow> Inl e
      | Inr st' \<Rightarrow> stack_units output_stride kwargs st' us)"

text \<open>The units in block order, then intra-block order, each with its block's unit function.\<close>

definition all_units :: "block list \<Rightarrow> (unit_fn \<times> unit_args) list" where
  "all_units blocks = concat (map (\<lambda>b. map (\<lambda>a. (unit_fn b, a)) (args b)) blocks)"

definition stack_blocks_dense ::
  "tensor \<Rightarrow> block list \<Rightarrow> py_number option \<Rightarrow> layer_args \<Rightarrow> error + tensor" where
  "stack_blocks_dense net blocks output_stride kwargs =
     (case stack_units output_stride kwargs
             \<lparr>stack_net = net, current_stride = 1, dilation_rate = 1\<rparr> (all_units blocks) of
        Inl e \<Rightarrow> Inl e
      | Inr st \<Rightarrow>
          if output_stride \<noteq> None \<and> \<not> at_target output_stride (current_stride st)
          then Inl (ValueError ''The target output_stride cannot be reached.'')
          else Inr (stack_net st))"

subsection \<open>The network generator (lines 90-193)\<close>

text \<open>
  Modelled from the spec: \<open>tefla.core.layer_arg_ops\<close> (\<open>common_layer_args\<close>, \<open>make_args\<close>,
  \<open>end_points\<close>) is not among the source files. \<open>common_layer_args\<close> builds the keyword
  dictionary of the training and reuse flags, \<open>make_args\<close> adds the keywords it is given
  (a record update here), and \<open>end_points\<close> returns the "mapping of stage name to
  intermediate tensor" (6, 9) that the layer primitives fill in the framework's global
  state. That state is outside the module: \<open>coll\<close> is its content when \<open>resnet_v2\<close>
  returns, by training flag.
\<close>

definition common_layer_args :: "bool \<Rightarrow> bool option \<Rightarrow> layer_args" where
  "common_layer_args is_training reuse =
     no_args\<lparr>arg_is_training := Some is_training, arg_reuse := reuse\<rparr>"

text \<open>What a Python call returns: a tensor, a dictionary of named tensors, or a tuple.\<close>

datatype py_value = PyTensor tensor | PyDict "(string \<times> tensor) list" | PyTuple "py_value list"

definition end_points :: "(bool \<Rightarrow> (string \<times> tensor) list) \<Rightarrow> bool \<Rightarrow> py_value" where
  "end_points coll is_training = PyDict (coll is_training)"

text \<open>Lines 154-161: the keyword dictionaries, one constant for each local variable.\<close>

definition conv_args :: "bool \<Rightarrow> bool option \<Rightarrow> layer_args" where
  "conv_args is_training reuse =
     (common_layer_args is_training reuse)\<lparr>arg_batch_norm := Some True,
        arg_activation := Some Prelu, arg_w_init := Some (He_normal 1),
        arg_untie_biases := Some False\<rparr>"

definition logits_args :: "bool \<Rightarrow> bool option \<Rightarrow> layer_args" where
  "logits_args is_training reuse =
     (common_layer_args is_training reuse)\<lparr>arg_activation := None,
        arg_w_init := Some (He_normal 1)\<rparr>"

definition pred_args :: "bool \<Rightarrow> bool option \<Rightarrow> layer_args" where
  "pred_args is_training reuse =
     (common_layer_args is_training reuse)\<lparr>arg_activation := Some Prelu,
        arg_w_init := Some (He_normal 1)\<rparr>"

definition pool_args :: "bool \<Rightarrow> bool option \<Rightarrow> layer_args" where
  "pool_args is_training reuse = (common_layer_args is_training reuse)\<lparr>arg_padding := Some ''SAME''\<rparr>"

text \<open>
  Lines 164-183: the root block, the block stack and the final normalisation. The result
  is the local variable \<open>net\<close> after line 183. In the root block \<open>output_stride % 4\<close> is
  the remainder in \<open>{0, 1, 2, 3}\<close>, as \<open>mod\<close> on \<open>int\<close> is; where \<open>output_stride /= 4\<close> is
  reached the quotient is the integer \<open>output_stride div 4\<close>, and the assignment makes
  it a float.
\<close>

definition resnet_v2_features ::
  "tensor \<Rightarrow> bool \<Rightarrow> bool option \<Rightarrow> block list \<Rightarrow> int option \<Rightarrow> bool \<Rightarrow> error + tensor" where
  "resnet_v2_features inputs is_training reuse blocks output_stride include_root_block =
     (case (if include_root_block
            then (case (case output_stride of
                          None \<Rightarrow> Inr None
                        | Some s \<Rightarrow>
                            if s mod 4 \<noteq> 0
                            then Inl (ValueError ''The output_stride needs to be a multiple of 4.'')
                            else (case int_to_double (s div 4) of
                                    Inl e \<Rightarrow> Inl e
                                  | Inr q \<Rightarrow> Inr (Some (PyFloat q)))) of
                    Inl e \<Rightarrow> Inl e
                  | Inr output_stride \<Rightarrow>
                      Inr (Max_pool
                             (Conv2d_same inputs 64 7 2 1 ''conv1''
                                (common_layer_args is_training reuse))
                             ''pool1'' (pool_args is_training reuse),
                           output_stride))
            else Inr (inputs, map_option PyInt output_stride)) of
        Inl e \<Rightarrow> Inl e
      | Inr (net, output_stride) \<Rightarrow>
         (case stack_blocks_dense net blocks output_stride (conv_args is_training reuse) of
            Inl e \<Rightarrow> Inl e
          | Inr net \<Rightarrow>
              Inr (Batch_norm net ''postnorm''
                     (no_args\<lparr>arg_activation := Some Relu, arg_is_training := Some is_training,
                        arg_reuse := reuse\<rparr>))))"

text \<open>
  Lines 184-191: global pooling and the classification head. The result is the pair of
  the local variables \<open>net\<close> and \<open>predictions\<close> (unbound, here \<open>None\<close>, when \<open>num_classes\<close>
  is \<open>None\<close>).
\<close>

definition resnet_v2_head ::
  "tensor \<Rightarrow> bool \<Rightarrow> bool option \<Rightarrow> int option \<Rightarrow> bool \<Rightarrow> tensor \<times> tensor option" where
  "resnet_v2_head net is_training reuse num_classes global_pool =
     (let net = (if global_pool then Reduce_mean net [1, 2] ''pool5'' True else net);
          net = (case num_classes of
                   None \<Rightarrow> net
                 | Some n \<Rightarrow>
                     Conv2d net n (1, 1) (1, 1) ''logits'' (logits_args is_training reuse));
          predictions = (case num_classes of
                           None \<Rightarrow> None
                         | Some n \<Rightarrow>
                             Some (Softmax net ''predictions'' (pred_args is_training reuse)))
      in (net, predictions))"

text \<open>Line 193 returns \<open>end_points(is_training)\<close>, and nothing else.\<close>

definition resnet_v2 ::
  "(bool \<Rightarrow> (string \<times> tensor) list) \<Rightarrow> tensor \<Rightarrow> bool \<Rightarrow> bool option \<Rightarrow> block list
     \<Rightarrow> int option \<Rightarrow> bool \<Rightarrow> int option \<Rightarrow> bool \<Rightarrow> string option \<Rightarrow> error + py_value" where
  "resnet_v2 coll inputs is_training reuse blocks num_classes global_pool output_stride
       include_root_block name =
     (case resnet_v2_features inputs is_training reuse blocks output_stride include_root_block of
        Inl e \<Rightarrow> Inl e
      | Inr net \<Rightarrow>
          (case resnet_v2_head net is_training reuse num_classes global_pool of
             (net, predictions) \<Rightarrow> Inr (end_points coll is_training)))"

subsection \<open>The variants (lines 196-273)\<close>

text \<open>
  The stack calls \<open>block.unit_fn(net, depth=..., depth_bottleneck=..., stride=..., rate=...,
  **kwargs)\<close>, so \<open>bottleneck\<close> runs with its default \<open>name=None\<close>. Python's
  \<open>[x] * n + [y]\<close> is \<open>replicate n x @ [y]\<close>. Each constructor's local \<open>blocks\<close> is a
  constant of its own.
\<close>

definition bottleneck_unit :: unit_fn where
  "bottleneck_unit inputs depth depth_bottleneck stride rate kwargs =
     bottleneck inputs depth depth_bottleneck stride rate None kwargs"

definition resnet_v2_50_blocks :: "block list" where
  "resnet_v2_50_blocks =
     [Block ''block1'' bottleneck_unit (replicate 2 (256, 64, 1) @ [(256, 64, 2)]),
      Block ''block2'' bottleneck_unit (replicate 3 (512, 128, 1) @ [(512, 128, 2)]),
      Block ''block3'' bottleneck_unit (replicate 5 (1024, 256, 1) @ [(1024, 256, 2)]),
      Block ''block4'' bottleneck_unit (replicate 3 (2048, 512, 1))]"

definition resnet_v2_101_blocks :: "block list" where
  "resnet_v2_101_blocks =
     [Block ''block1'' bottleneck_unit (replicate 2 (256, 64, 1) @ [(256, 64, 2)]),
      Block ''block2'' bottleneck_unit (replicate 3 (512, 128, 1) @ [(512, 128, 2)]),
      Block ''block3'' bottleneck_unit (replicate 22 (1024, 256, 1) @ [(1024, 256, 2)]),
      Block ''block4'' bottleneck_unit (replicate 3 (2048, 512, 1))]"

definition resnet_v2_152_blocks :: "block list" where
  "resnet_v2_152_blocks =
     [Block ''block1'' bottleneck_unit (replicate 2 (256, 64, 1) @ [(256, 64, 2)]),
      Block ''block2'' bottleneck_unit (replicate 7 (512, 128, 1) @ [(512, 128, 2)]),
      Block ''block3'' bottleneck_unit (replicate 35 (1024, 256, 1) @ [(1024, 256, 2)]),
      Block ''block4'' bottleneck_unit (replicate 3 (2048, 512, 1))]"

definition resnet_v2_200_blocks :: "block list" where
  "resnet_v2_200_blocks =
     [Block ''block1'' bottleneck_unit (replicate 2 (256, 64, 1) @ [(256, 64, 2)]),
      Block ''block2'' bottleneck_unit (replicate 23 (512, 128, 1) @ [(512, 128, 2)]),
      Block ''block3'' bottleneck_unit (replicate 35 (1024, 256, 1) @ [(1024, 256, 2)]),
      Block ''block4'' bottleneck_unit (replicate 3 (2048, 512, 1))]"

definition resnet_v2_50 ::
  "(bool \<Rightarrow> (string \<times> tensor) list) \<Rightarrow> tensor \<Rightarrow> bool \<Rightarrow> bool option \<Rightarrow> int option \<Rightarrow> bool
     \<Rightarrow> int option \<Rightarrow> string \<Rightarrow> error + py_value" where
  "resnet_v2_50 coll inputs is_training reuse num_classes global_pool output_stride name =
     resnet_v2 coll inputs is_training reuse resnet_v2_50_blocks num_classes global_pool
       output_stride True (Some name)"

definition resnet_v2_101 ::
  "(bool \<Rightarrow> (string \<times> tensor) list) \<Rightarrow> tensor \<Rightarrow> bool \<Rightarrow> bool option \<Rightarrow> int option \<Rightarrow> bool
     \<Rightarrow> int option \<Rightarrow> string \<Rightarrow> error + py_value" where
  "resnet_v2_101 coll inputs is_training reuse num_classes global_pool output_stride name =
     resnet_v2 coll inputs is_training reuse resnet_v2_101_blocks num_classes global_pool
       output_stride True (Some name)"

definition resnet_v2_152 ::
  "(bool \<Rightarrow> (string \<times> tensor) list) \<Rightarrow> tensor \<Rightarrow> bool \<Rightarrow> bool option \<Rightarrow> int option \<Rightarrow> bool
     \<Rightarrow> int option \<Rightarrow> string \<Rightarrow> error + py_value" where
  "resnet_v2_152 coll inputs is_training reuse num_classes global_pool output_stride name =
     resnet_v2 coll inputs is_training reuse resnet_v2_152_blocks num_classes global_pool
       output_stride True (Some name)"

definition resnet_v2_200 ::
  "(bool \<Rightarrow> (string \<times> tensor) list) \<Rightarrow> tensor \<Rightarrow> bool \<Rightarrow> bool option \<Rightarrow> int option \<Rightarrow> bool
     \<Rightarrow> int option \<Rightarrow> string \<Rightarrow> error + py_value" where
  "resnet_v2_200 coll inputs is_training reuse num_classes global_pool output_stride name =
     resnet_v2 coll inputs is_training reuse resnet_v2_200_blocks num_classes global_pool
       output_stride True (Some name)"

subsection \<open>Notions used in the statements\<close>

text \<open>The nominal stride and the output depth of a unit of the stack.\<close>

definition nominal_stride :: "unit_fn \<times> unit_args \<Rightarrow> int" where
  "nominal_stride u = snd (snd (snd u))"

definition unit_depth :: "unit_fn \<times> unit_args \<Rightarrow> int" where
  "unit_depth u = fst (snd u)"

text \<open>The value of a Python number, to compare a cumulative stride with a target.\<close>

fun number_value :: "py_number \<Rightarrow> rat" where
  "number_value (PyInt t) = of_int t"
| "number_value (PyFloat t) = t"

text \<open>The strides and the output depths of the units, block by block.\<close>

definition block_strides :: "block list \<Rightarrow> int list list" where
  "block_strides blocks = map (\<lambda>b. map (\<lambda>(d, db, s). s) (args b)) blocks"

definition block_depths :: "block list \<Rightarrow> int list list" where
  "block_depths blocks = map (\<lambda>b. map (\<lambda>(d, db, s). d) (args b)) blocks"

text \<open>The block lists of the four variant constructors.\<close>

definition variants :: "block list set" where
  "variants =
     {resnet_v2_50_blocks, resnet_v2_101_blocks, resnet_v2_152_blocks, resnet_v2_200_blocks}"

text \<open>The activation collections of a graph in which no layer has registered anything.\<close>

definition no_activations :: "bool \<Rightarrow> (string \<times> tensor) list" where
  "no_activations is_training = []"

section \<open>Auxiliary facts\<close>

subsection \<open>Shapes\<close>

lemma spatial_one [simp]: "spatial 1 d = d"
  by (cases d) (simp_all add: spatial_def)

lemma spatial_spatial: "0 \<le> s \<Longrightarrow> spatial s (spatial c d) = spatial (c * s) d"
  by (cases d) (simp_all add: spatial_def zdiv_zmult2_eq)

lemma last_dimension_rank4 [simp]:
  "last_dimension (Some [b, h, w, Some c]) 4 = Inr c"
  by (simp add: last_dimension_def)

lemma bottleneck_shape:
  assumes "get_shape inputs = Some [b, h, w, Some c]" and "1 \<le> s"
  shows "\<exists>out. bottleneck inputs d db s r name kw = Inr out \<and>
           get_shape out = Some [b, spatial s h, spatial s w, Some d]"
  using assms by (simp add: bottleneck_def Let_def)

lemma root_shape:
  assumes "get_shape inputs = Some [b, h, w, c]"
  shows "get_shape (Max_pool (Conv2d_same inputs 64 7 2 1 n1 a1) n2 a2) =
           Some [b, spatial 4 h, spatial 4 w, Some 64]"
  using assms spatial_spatial[of 2 2] by simp

subsection \<open>The loop of the block stack\<close>

lemma py_eq_value: "py_eq c t \<longleftrightarrow> of_int c = number_value t"
  by (cases t) simp_all

lemma stack_units_append:
  "stack_units t kw st (xs @ ys) =
     (case stack_units t kw st xs of Inl e \<Rightarrow> Inl e | Inr st' \<Rightarrow> stack_units t kw st' ys)"
  by (induction xs arbitrary: st) (simp_all split: sum.splits)

lemma apply_unit_Inr:
  assumes "apply_unit t kw st u = Inr st'"
  shows "if at_target t (current_stride st)
         then (\<exists>net. fst u (stack_net st) (unit_depth u) (fst (snd (snd u))) 1
                        (dilation_rate st) kw = Inr net \<and>
                 st' = st\<lparr>stack_net := net,
                          dilation_rate := dilation_rate st * nominal_stride u\<rparr>)
         else (\<exists>net. fst u (stack_net st) (unit_depth u) (fst (snd (snd u)))
                        (nominal_stride u) 1 kw = Inr net \<and>
                 st' = st\<lparr>stack_net := net,
                          current_stride := current_stride st * nominal_stride u\<rparr>)"
  using assms
  by (cases u) (auto simp: nominal_stride_def unit_depth_def split: if_splits sum.splits)

lemma apply_unit_stride:
  assumes "apply_unit t kw st u = Inr st'"
  shows "current_stride st' =
           (if at_target t (current_stride st) then current_stride st
            else current_stride st * nominal_stride u)"
  using apply_unit_Inr[OF assms] by (auto split: if_splits)

text \<open>Once the cumulative stride is the target it does not change any more.\<close>

lemma stack_units_frozen:
  assumes "at_target t (current_stride st)" and "stack_units t kw st us = Inr st'"
  shows "current_stride st' = current_stride st"
  using assms
proof (induction us arbitrary: st)
  case Nil
  then show ?case by simp
next
  case (Cons u us)
  from Cons.prems(2) obtain st1 where a: "apply_unit t kw st u = Inr st1"
    and r: "stack_units t kw st1 us = Inr st'"
    by (auto split: sum.splits)
  from apply_unit_stride[OF a] Cons.prems(1) have "current_stride st1 = current_stride st"
    by simp
  with Cons.IH[of st1] Cons.prems(1) r show ?case by simp
qed

text \<open>
  A cumulative stride that is past a positive target (or has become 0) never comes back
  to it: every further step multiplies it by an integer.
\<close>

lemma stack_units_overshoot:
  assumes "0 < number_value t"
      and "number_value t < of_int \<bar>current_stride st\<bar> \<or> current_stride st = 0"
      and "stack_units (Some t) kw st us = Inr st'"
  shows "number_value t < of_int \<bar>current_stride st'\<bar> \<or> current_stride st' = 0"
  using assms(2,3)
proof (induction us arbitrary: st)
  case Nil
  then show ?case by simp
next
  case (Cons u us)
  from Cons.prems(2) obtain st1 where a: "apply_unit (Some t) kw st u = Inr st1"
    and r: "stack_units (Some t) kw st1 us = Inr st'"
    by (auto split: sum.splits)
  have nt: "\<not> at_target (Some t) (current_stride st)"
    using Cons.prems(1) assms(1) by (auto simp: py_eq_value)
  with apply_unit_stride[OF a]
  have c1: "current_stride st1 = current_stride st * nominal_stride u" by simp
  have "number_value t < of_int \<bar>current_stride st1\<bar> \<or> current_stride st1 = 0"
  proof (cases "current_stride st = 0 \<or> nominal_stride u = 0")
    case True
    then show ?thesis using c1 by auto
  next
    case False
    then have "1 \<le> \<bar>nominal_stride u\<bar>" by arith
    then have "\<bar>current_stride st\<bar> \<le> \<bar>current_stride st1\<bar>"
      unfolding c1 abs_mult by (simp add: mult_le_cancel_left1)
    then have "(of_int \<bar>current_stride st\<bar> :: rat) \<le> of_int \<bar>current_stride st1\<bar>"
      by (simp only: of_int_le_iff)
    moreover from False Cons.prems(1) have "number_value t < of_int \<bar>current_stride st\<bar>"
      by simp
    ultimately show ?thesis by simp
  qed
  from Cons.IH[OF this r] show ?case .
qed

lemma stack_units_within_budget:
  assumes "0 < number_value t"
      and "stack_units (Some t) kw st us = Inr st'"
      and "py_eq (current_stride st') t"
  shows "of_int (current_stride st) \<le> number_value t"
proof (rule ccontr)
  assume "\<not> of_int (current_stride st) \<le> number_value t"
  moreover have "(of_int (current_stride st) :: rat) \<le> of_int \<bar>current_stride st\<bar>"
    by simp
  ultimately have "number_value t < of_int \<bar>current_stride st\<bar>" by linarith
  from stack_units_overshoot[OF assms(1) disjI1[OF this] assms(2)] assms(1,3)
  show False by (auto simp: py_eq_value)
qed

lemma stack_units_budget:
  assumes run: "stack_units (Some t) kw st0 (pre @ (fn, d, db, s) # post) = Inr st_end"
      and ok: "py_eq (current_stride st_end) t"
      and pos: "0 < number_value t"
  shows "\<exists>st st'.
           stack_units (Some t) kw st0 pre = Inr st \<and>
           stack_units (Some t) kw st0 (pre @ [(fn, d, db, s)]) = Inr st' \<and>
           of_int (current_stride st) \<le> number_value t \<and>
           (if of_int (current_stride st) = number_value t
            then (\<exists>net. fn (stack_net st) d db 1 (dilation_rate st) kw = Inr net \<and>
                    st' = st\<lparr>stack_net := net, dilation_rate := dilation_rate st * s\<rparr>) \<and>
                 (\<forall>k\<le>length post. \<exists>st''.
                    stack_units (Some t) kw st0 (pre @ (fn, d, db, s) # take k post) = Inr st'' \<and>
                    current_stride st'' = current_stride st)
            else of_int (current_stride st) < number_value t \<and>
                 (\<exists>net. fn (stack_net st) d db s 1 kw = Inr net \<and>
                    st' = st\<lparr>stack_net := net, current_stride := current_stride st * s\<rparr>))"
proof -
  from run obtain st where p: "stack_units (Some t) kw st0 pre = Inr st"
    and r: "stack_units (Some t) kw st ((fn, d, db, s) # post) = Inr st_end"
    by (auto simp: stack_units_append split: sum.splits)
  from r obtain st' where a: "apply_unit (Some t) kw st (fn, d, db, s) = Inr st'"
    and r': "stack_units (Some t) kw st' post = Inr st_end"
    by (auto split: sum.splits)
  have p': "stack_units (Some t) kw st0 (pre @ [(fn, d, db, s)]) = Inr st'"
    using p a by (simp add: stack_units_append)
  have le: "of_int (current_stride st) \<le> number_value t"
    by (rule stack_units_within_budget[OF pos r ok])
  show ?thesis
  proof (cases "of_int (current_stride st) = number_value t")
    case True
    then have at: "at_target (Some t) (current_stride st)" by (simp add: py_eq_value)
    have later: "\<exists>st''. stack_units (Some t) kw st0 (pre @ (fn, d, db, s) # take k post) = Inr st'' \<and>
                    current_stride st'' = current_stride st" for k
    proof -
      have "stack_units (Some t) kw st' (take k post @ drop k post) = Inr st_end"
        using r' by simp
      then obtain st'' where k: "stack_units (Some t) kw st' (take k post) = Inr st''"
        unfolding stack_units_append by (auto split: sum.splits)
      then have "stack_units (Some t) kw st ((fn, d, db, s) # take k post) = Inr st''"
        using a by simp
      from stack_units_frozen[OF at this] this p show ?thesis
        by (auto simp: stack_units_append)
    qed
    with True at a p p' le show ?thesis
      by (auto split: sum.splits)
  next
    case False
    then have nat: "\<not> at_target (Some t) (current_stride st)" by (simp add: py_eq_value)
    from False le have "of_int (current_stride st) < number_value t" by simp
    with False nat a p p' le show ?thesis
      by (auto split: sum.splits)
  qed
qed

text \<open>
  While no prefix of the units has the target as the product of its nominal strides,
  every unit is applied with its nominal stride.
\<close>

lemma stack_units_unreachable:
  assumes "\<forall>n\<le>length us.
             \<not> py_eq (current_stride st * prod_list (map nominal_stride (take n us))) t"
      and "stack_units (Some t) kw st us = Inr st'"
  shows "current_stride st' = current_stride st * prod_list (map nominal_stride us)"
  using assms
proof (induction us arbitrary: st)
  case Nil
  then show ?case by simp
next
  case (Cons u us)
  from Cons.prems(2) obtain st1 where a: "apply_unit (Some t) kw st u = Inr st1"
    and r: "stack_units (Some t) kw st1 us = Inr st'"
    by (auto split: sum.splits)
  from Cons.prems(1)[rule_format, of 0] have "\<not> at_target (Some t) (current_stride st)"
    by simp
  with apply_unit_stride[OF a]
  have c1: "current_stride st1 = current_stride st * nominal_stride u" by simp
  have "\<forall>n\<le>length us.
          \<not> py_eq (current_stride st1 * prod_list (map nominal_stride (take n us))) t"
  proof (intro allI impI)
    fix n assume "n \<le> length us"
    with Cons.prems(1)[rule_format, of "Suc n"] show
      "\<not> py_eq (current_stride st1 * prod_list (map nominal_stride (take n us))) t"
      by (simp add: c1 mult.assoc)
  qed
  from Cons.IH[OF this r] show ?case by (simp add: c1 mult.assoc)
qed

lemma stack_units_nominal:
  assumes "stack_units None kw st us = Inr st'"
  shows "current_stride st' = current_stride st * prod_list (map nominal_stride us)"
  using assms
proof (induction us arbitrary: st)
  case Nil
  then show ?case by simp
next
  case (Cons u us)
  from Cons.prems obtain st1 where a: "apply_unit None kw st u = Inr st1"
    and r: "stack_units None kw st1 us = Inr st'"
    by (auto split: sum.splits)
  from apply_unit_stride[OF a] Cons.IH[OF r] show ?case by (simp add: mult.assoc)
qed

subsection \<open>Stacks of bottleneck units\<close>

lemma apply_unit_bottleneck_shape:
  assumes "get_shape (stack_net st) =
             Some [b, spatial (current_stride st) h, spatial (current_stride st) w, Some c]"
      and "fst u = bottleneck_unit" and "1 \<le> nominal_stride u"
  shows "\<exists>st'. apply_unit t kw st u = Inr st' \<and>
           get_shape (stack_net st') =
             Some [b, spatial (current_stride st') h, spatial (current_stride st') w,
                   Some (unit_depth u)]"
proof -
  obtain fn d db s where u: "u = (fn, d, db, s)" by (cases u) auto
  with assms have fn: "fn = bottleneck_unit" and s: "1 \<le> s"
    by (simp_all add: nominal_stride_def)
  show ?thesis
  proof (cases "at_target t (current_stride st)")
    case True
    from bottleneck_shape[OF assms(1), of 1 d db "dilation_rate st" None kw]
    show ?thesis using True by (auto simp: u fn bottleneck_unit_def unit_depth_def)
  next
    case False
    from bottleneck_shape[OF assms(1) s, of d db 1 None kw]
    show ?thesis using False s
      by (auto simp: u fn bottleneck_unit_def unit_depth_def spatial_spatial)
  qed
qed

lemma stack_units_bottleneck_shape:
  assumes "get_shape (stack_net st) =
             Some [b, spatial (current_stride st) h, spatial (current_stride st) w, Some c]"
      and "\<forall>u\<in>set us. fst u = bottleneck_unit \<and> 1 \<le> nominal_stride u"
  shows "\<exists>st'. stack_units t kw st us = Inr st' \<and>
           get_shape (stack_net st') =
             Some [b, spatial (current_stride st') h, spatial (current_stride st') w,
                   Some (last (c # map unit_depth us))]"
  using assms
proof (induction us arbitrary: st c)
  case Nil
  then show ?case by simp
next
  case (Cons u us)
  from Cons.prems(2) have u: "fst u = bottleneck_unit" "1 \<le> nominal_stride u" by simp_all
  from apply_unit_bottleneck_shape[OF Cons.prems(1) u, of t kw]
  obtain st1 where a: "apply_unit t kw st u = Inr st1"
    and sh: "get_shape (stack_net st1) =
               Some [b, spatial (current_stride st1) h, spatial (current_stride st1) w,
                     Some (unit_depth u)]"
    by blast
  from Cons.prems(2) have "\<forall>u\<in>set us. fst u = bottleneck_unit \<and> 1 \<le> nominal_stride u"
    by simp
  from Cons.IH[OF sh this] a show ?case by auto
qed

subsection \<open>The variants\<close>

lemmas variant_defs =
  resnet_v2_50_blocks_def resnet_v2_101_blocks_def resnet_v2_152_blocks_def
  resnet_v2_200_blocks_def

lemma variant_units:
  assumes "blocks \<in> variants"
  shows "\<forall>u\<in>set (all_units blocks). fst u = bottleneck_unit \<and> 1 \<le> nominal_stride u"
    and "prod_list (map nominal_stride (all_units blocks)) = 8"
    and "last (c # map unit_depth (all_units blocks)) = 2048"
  using assms
  by (auto simp: variants_def variant_defs all_units_def nominal_stride_def unit_depth_def
       prod_list_replicate comp_def)

lemma variant_block_strides:
  "block_strides resnet_v2_50_blocks =
     [replicate 2 1 @ [2], replicate 3 1 @ [2], replicate 5 1 @ [2], replicate 3 1]"
  "block_strides resnet_v2_101_blocks =
     [replicate 2 1 @ [2], replicate 3 1 @ [2], replicate 22 1 @ [2], replicate 3 1]"
  "block_strides resnet_v2_152_blocks =
     [replicate 2 1 @ [2], replicate 7 1 @ [2], replicate 35 1 @ [2], replicate 3 1]"
  "block_strides resnet_v2_200_blocks =
     [replicate 2 1 @ [2], replicate 23 1 @ [2], replicate 35 1 @ [2], replicate 3 1]"
  unfolding variant_defs block_strides_def
  by (simp_all only: list.map block.sel map_append map_replicate prod.case)

lemma variant_stack:
  assumes "blocks \<in> variants" and "get_shape x = Some [b, h, w, Some c]"
  shows "\<exists>st. stack_units t kw \<lparr>stack_net = x, current_stride = 1, dilation_rate = 1\<rparr>
                 (all_units blocks) = Inr st \<and>
              get_shape (stack_net st) =
                Some [b, spatial (current_stride st) h, spatial (current_stride st) w, Some 2048]"
  using stack_units_bottleneck_shape[of "\<lparr>stack_net = x, current_stride = 1, dilation_rate = 1\<rparr>"
          b h w c "all_units blocks" t kw]
    variant_units(1)[OF assms(1)] variant_units(3)[OF assms(1), of c] assms(2)
  by simp

lemma variant_features:
  assumes "blocks \<in> variants" and "get_shape inputs = Some [b, h, w, c]"
  shows "\<exists>net. resnet_v2_features inputs is_training reuse blocks None True = Inr net \<and>
            get_shape net = Some [b, spatial 32 h, spatial 32 w, Some 2048]"
proof -
  let ?root = "Max_pool (Conv2d_same inputs 64 7 2 1 ''conv1''
                 (common_layer_args is_training reuse)) ''pool1'' (pool_args is_training reuse)"
  have root: "get_shape ?root = Some [b, spatial 4 h, spatial 4 w, Some 64]"
    by (rule root_shape[OF assms(2)])
  from variant_stack[OF assms(1) root, of None "conv_args is_training reuse"]
  obtain st where st: "stack_units None (conv_args is_training reuse)
        \<lparr>stack_net = ?root, current_stride = 1, dilation_rate = 1\<rparr> (all_units blocks) = Inr st"
    and sh: "get_shape (stack_net st) =
        Some [b, spatial (current_stride st) (spatial 4 h),
              spatial (current_stride st) (spatial 4 w), Some 2048]"
    by blast
  from stack_units_nominal[OF st] variant_units(2)[OF assms(1)]
  have "current_stride st = 8" by simp
  with sh have "get_shape (stack_net st) = Some [b, spatial 32 h, spatial 32 w, Some 2048]"
    by (simp add: spatial_spatial)
  with st show ?thesis
    by (simp add: resnet_v2_features_def stack_blocks_dense_def)
qed

subsection \<open>True division\<close>

lemma int_to_double_exact:
  assumes "\<bar>n\<bar> < 2 ^ 53"
  shows "int_to_double n = Inr (of_int n)"
proof -
  have "(2::int) ^ 53 < 2 ^ 1024" by (rule power_strict_increasing) simp_all
  with assms have "\<not> (2::int) ^ 1024 \<le> \<bar>n\<bar>" by linarith
  moreover have "sgn n * \<bar>n\<bar> = n" by (simp add: mult_sgn_abs)
  moreover from assms have "mantissa_shift \<bar>n\<bar> = 0" by (simp add: mantissa_shift.simps)
  ultimately show ?thesis
    by (simp add: int_to_double_def Let_def round_half_even_def)
qed

section \<open>The claims\<close>

subsection \<open>The bottleneck unit\<close>

text \<open>
  C5. In the bottleneck unit the shortcut is a plain subsampling of the input
  (\<open>subsample(inputs, stride)\<close>, no convolution) if and only if the requested depth
  equals the depth of the input; otherwise it is a 1x1 convolution of the pre-activated
  input to the requested depth, with the unit's stride and with neither activation nor
  normalisation. The unit's result is \<open>Add shortcut residual\<close>; the statement is about
  every call that returns.
\<close>

theorem bottleneck_shortcut:
  assumes "bottleneck inputs depth depth_bottleneck stride rate name kwargs = Inr out"
  shows "\<exists>depth_in shortcut residual shortcut_args.
           last_dimension (get_shape inputs) 4 = Inr depth_in \<and>
           out = Add shortcut residual \<and>
           (is_Subsample shortcut \<longleftrightarrow> depth = depth_in) \<and>
           (if depth = depth_in
            then shortcut = Subsample inputs stride ''shortcut''
            else shortcut =
                   Conv2d (Batch_norm inputs ''preact''
                             (no_args\<lparr>arg_activation := Some Relu,
                                arg_is_training := arg_is_training kwargs,
                                arg_reuse := arg_reuse kwargs\<rparr>))
                     depth (1, 1) (stride, stride) ''shortcut'' shortcut_args \<and>
                 arg_batch_norm shortcut_args = None \<and>
                 arg_activation shortcut_args = None)"
  using assms by (auto simp: bottleneck_def Let_def no_args_def split: sum.splits)

theorem bottleneck_shortcut_witness:
  "bottleneck (Placeholder (Some [None, Some 56, Some 56, Some 64])) 256 64 2 1 None
     (conv_args True None) =
   Inr (Add
     (Conv2d
        (Batch_norm (Placeholder (Some [None, Some 56, Some 56, Some 64])) ''preact''
           (no_args\<lparr>arg_activation := Some Relu, arg_is_training := Some True\<rparr>))
        256 (1, 1) (2, 2) ''shortcut'' (no_args\<lparr>arg_is_training := Some True\<rparr>))
     (Conv2d
        (Conv2d_same
           (Conv2d
              (Batch_norm (Placeholder (Some [None, Some 56, Some 56, Some 64])) ''preact''
                 (no_args\<lparr>arg_activation := Some Relu, arg_is_training := Some True\<rparr>))
              64 (1, 1) (1, 1) ''conv1'' (conv_args True None))
           64 3 2 1 ''conv2'' (conv_args True None))
        256 (1, 1) (1, 1) ''conv3'' (no_args\<lparr>arg_is_training := Some True\<rparr>))) \<and>
   bottleneck (Placeholder (Some [None, Some 56, Some 56, Some 256])) 256 64 2 1 None
     (conv_args True None) =
   Inr (Add
     (Subsample (Placeholder (Some [None, Some 56, Some 56, Some 256])) 2 ''shortcut'')
     (Conv2d
        (Conv2d_same
           (Conv2d
              (Batch_norm (Placeholder (Some [None, Some 56, Some 56, Some 256])) ''preact''
                 (no_args\<lparr>arg_activation := Some Relu, arg_is_training := Some True\<rparr>))
              64 (1, 1) (1, 1) ''conv1'' (conv_args True None))
           64 3 2 1 ''conv2'' (conv_args True None))
        256 (1, 1) (1, 1) ''conv3'' (no_args\<lparr>arg_is_training := Some True\<rparr>)))"
  using
    bottleneck_shortcut[of "Placeholder (Some [None, Some 56, Some 56, Some 64])" 256 64 2 1 None
      "conv_args True None"]
    bottleneck_shortcut[of "Placeholder (Some [None, Some 56, Some 56, Some 256])" 256 64 2 1 None
      "conv_args True None"]
  by (simp add: bottleneck_def Let_def no_args_def conv_args_def common_layer_args_def)

text \<open>
  C6. In the bottleneck unit the residual path is three convolutions in a row on the
  pre-activated input: \<open>conv1\<close>, 1x1 at stride 1 to the bottleneck depth; \<open>conv2\<close>, 3x3
  with the unit's stride and rate; \<open>conv3\<close>, 1x1 at stride 1 to the output depth, with
  neither activation nor normalisation. The unit returns the sum of the shortcut and
  this residual.
\<close>

theorem bottleneck_residual:
  assumes "bottleneck inputs depth depth_bottleneck stride rate name kwargs = Inr out"
  shows "\<exists>shortcut conv3_args.
           out = Add shortcut
             (Conv2d
                (Conv2d_same
                   (Conv2d
                      (Batch_norm inputs ''preact''
                         (no_args\<lparr>arg_activation := Some Relu,
                            arg_is_training := arg_is_training kwargs,
                            arg_reuse := arg_reuse kwargs\<rparr>))
                      depth_bottleneck (1, 1) (1, 1) ''conv1'' kwargs)
                   depth_bottleneck 3 stride rate ''conv2'' kwargs)
                depth (1, 1) (1, 1) ''conv3'' conv3_args) \<and>
           conv3_args = no_args\<lparr>arg_is_training := arg_is_training kwargs,
                           arg_reuse := arg_reuse kwargs\<rparr> \<and>
           arg_batch_norm conv3_args = None \<and> arg_activation conv3_args = None"
  using assms by (auto simp: bottleneck_def Let_def no_args_def split: sum.splits)

theorem bottleneck_residual_witness:
  "\<exists>shortcut.
     bottleneck (Placeholder (Some [Some 8, Some 28, Some 28, Some 512])) 1024 256 1 2 None
       (conv_args False (Some True)) =
     Inr (Add shortcut
       (Conv2d
          (Conv2d_same
             (Conv2d
                (Batch_norm (Placeholder (Some [Some 8, Some 28, Some 28, Some 512])) ''preact''
                   (no_args\<lparr>arg_activation := Some Relu, arg_is_training := Some False,
                      arg_reuse := Some True\<rparr>))
                256 (1, 1) (1, 1) ''conv1'' (conv_args False (Some True)))
             256 3 1 2 ''conv2'' (conv_args False (Some True)))
          1024 (1, 1) (1, 1) ''conv3''
          (no_args\<lparr>arg_is_training := Some False, arg_reuse := Some True\<rparr>)))"
  using
    bottleneck_residual[of "Placeholder (Some [Some 8, Some 28, Some 28, Some 512])" 1024 256 1 2
      None "conv_args False (Some True)"]
  by (simp add: bottleneck_def Let_def no_args_def conv_args_def common_layer_args_def)

text \<open>
  C9. Whenever the bottleneck unit is called on a \<open>[batch, height, width, channels]\<close>
  tensor with the output depth equal to the tensor's channel depth and with stride 1, it
  returns, and the shape of the result is the shape of the input (whatever the
  bottleneck depth, the rate and the keyword arguments; dimensions other than the
  channel depth may be unknown).
\<close>

theorem bottleneck_same_shape:
  assumes "get_shape inputs = Some [b, h, w, Some depth]"
  shows "\<exists>out. bottleneck inputs depth depth_bottleneck 1 rate name kwargs = Inr out \<and>
           get_shape out = get_shape inputs"
  using assms by (simp add: bottleneck_def Let_def)

theorem bottleneck_same_shape_witness:
  "get_shape (Placeholder (Some [None, Some 56, Some 56, Some 256])) =
     Some [None, Some 56, Some 56, Some 256] \<and>
   (\<exists>out. bottleneck (Placeholder (Some [None, Some 56, Some 56, Some 256])) 256 64 1 1 None
             (conv_args True None) = Inr out \<and>
      get_shape out = Some [None, Some 56, Some 56, Some 256])"
  using
    bottleneck_same_shape[of "Placeholder (Some [None, Some 56, Some 56, Some 256])" None
      "Some 56" "Some 56" 256 64 1 None "conv_args True None"]
  by simp


subsection \<open>Block stacking\<close>

text \<open>
  C3, as amended. During block stacking towards a positive target output_stride, in
  every run that ends without an error, the cumulative stride before each unit (the
  units taken in block order, then intra-block order) is at most the target, and after
  the last unit it is the target. The unit is
  applied with its nominal stride and rate 1, and the cumulative stride is multiplied by
  that stride, exactly while the cumulative stride is below the target; once the
  cumulative stride equals the target the unit is applied with stride 1 and the current
  rate, its nominal stride is multiplied into the rate, and the cumulative stride stays
  the target after every later unit.

  Here \<open>pre\<close> are the units before the unit \<open>(fn, d, db, s)\<close>, \<open>st\<close> is the state of the
  loop before it, \<open>st'\<close> the state after it and \<open>st_end\<close> the state after the last unit.
\<close>

theorem stride_budget:
  assumes "stack_blocks_dense net blocks (Some t) kwargs = Inr out"
      and "all_units blocks = pre @ (fn, d, db, s) # post"
      and "0 < number_value t"
  shows "\<exists>st st' st_end.
           stack_units (Some t) kwargs
             \<lparr>stack_net = net, current_stride = 1, dilation_rate = 1\<rparr> pre = Inr st \<and>
           stack_units (Some t) kwargs
             \<lparr>stack_net = net, current_stride = 1, dilation_rate = 1\<rparr>
             (pre @ [(fn, d, db, s)]) = Inr st' \<and>
           stack_units (Some t) kwargs
             \<lparr>stack_net = net, current_stride = 1, dilation_rate = 1\<rparr>
             (all_units blocks) = Inr st_end \<and>
           out = stack_net st_end \<and>
           of_int (current_stride st_end) = number_value t \<and>
           of_int (current_stride st) \<le> number_value t \<and>
           (if of_int (current_stride st) = number_value t
            then (\<exists>x. fn (stack_net st) d db 1 (dilation_rate st) kwargs = Inr x \<and>
                    st' = st\<lparr>stack_net := x, dilation_rate := dilation_rate st * s\<rparr>) \<and>
                 (\<forall>k\<le>length post. \<exists>st''.
                    stack_units (Some t) kwargs
                      \<lparr>stack_net = net, current_stride = 1, dilation_rate = 1\<rparr>
                      (pre @ (fn, d, db, s) # take k post) = Inr st'' \<and>
                    current_stride st'' = current_stride st)
            else of_int (current_stride st) < number_value t \<and>
                 (\<exists>x. fn (stack_net st) d db s 1 kwargs = Inr x \<and>
                    st' = st\<lparr>stack_net := x, current_stride := current_stride st * s\<rparr>))"
proof -
  from assms(1) obtain st_end where
    run: "stack_units (Some t) kwargs
            \<lparr>stack_net = net, current_stride = 1, dilation_rate = 1\<rparr> (all_units blocks)
          = Inr st_end"
    and ok: "py_eq (current_stride st_end) t"
    and out: "out = stack_net st_end"
    by (auto simp: stack_blocks_dense_def split: sum.splits if_splits)
  from ok have "of_int (current_stride st_end) = number_value t" by (simp add: py_eq_value)
  with stack_units_budget[OF run[unfolded assms(2)] ok assms(3)] run out show ?thesis
    by blast
qed

theorem stride_budget_witness:
  "\<exists>out st st'.
     stack_blocks_dense (Placeholder (Some [Some 1, Some 56, Some 56, Some 64]))
       [Block ''block1'' bottleneck_unit [(256, 64, 2)],
        Block ''block2'' bottleneck_unit [(512, 128, 2)]]
       (Some (PyFloat 2)) (conv_args True None) = Inr out \<and>
     all_units [Block ''block1'' bottleneck_unit [(256, 64, 2)],
                Block ''block2'' bottleneck_unit [(512, 128, 2)]] =
       [(bottleneck_unit, 256, 64, 2)] @ (bottleneck_unit, 512, 128, 2) # [] \<and>
     0 < number_value (PyFloat 2) \<and>
     stack_units (Some (PyFloat 2)) (conv_args True None)
       \<lparr>stack_net = Placeholder (Some [Some 1, Some 56, Some 56, Some 64]),
          current_stride = 1, dilation_rate = 1\<rparr>
       [(bottleneck_unit, 256, 64, 2)] = Inr st \<and>
     current_stride st = 2 \<and> dilation_rate st = 1 \<and>
     (\<exists>x. bottleneck_unit (stack_net st) 512 128 1 1 (conv_args True None) = Inr x \<and>
        st' = st\<lparr>stack_net := x, dilation_rate := 2\<rparr>)"
proof -
  let ?x = "Placeholder (Some [Some 1, Some 56, Some 56, Some 64])"
  let ?blocks = "[Block ''block1'' bottleneck_unit [(256, 64, 2)],
                  Block ''block2'' bottleneck_unit [(512, 128, 2)]]"
  obtain out where
    run: "stack_blocks_dense ?x ?blocks (Some (PyFloat 2)) (conv_args True None) = Inr out"
    by (simp add: stack_blocks_dense_def all_units_def bottleneck_unit_def bottleneck_def
          Let_def spatial_def)
  have units: "all_units ?blocks =
      [(bottleneck_unit, 256, 64, 2)] @ (bottleneck_unit, 512, 128, 2) # []"
    by (simp add: all_units_def)
  have pos: "0 < number_value (PyFloat 2)" by simp
  from stride_budget[OF run units pos] obtain st st' st_end where
    st: "stack_units (Some (PyFloat 2)) (conv_args True None)
       \<lparr>stack_net = ?x, current_stride = 1, dilation_rate = 1\<rparr>
       [(bottleneck_unit, 256, 64, 2)] = Inr st"
    and step: "if rat_of_int (current_stride st) = number_value (PyFloat 2)
     then (\<exists>x. bottleneck_unit (stack_net st) 512 128 1 (dilation_rate st)
                  (conv_args True None) = Inr x \<and>
             st' = st\<lparr>stack_net := x, dilation_rate := dilation_rate st * 2\<rparr>) \<and>
          (\<forall>k\<le>length ([]::(unit_fn \<times> unit_args) list). \<exists>st''.
             stack_units (Some (PyFloat 2)) (conv_args True None)
               \<lparr>stack_net = ?x, current_stride = 1, dilation_rate = 1\<rparr>
               ([(bottleneck_unit, 256, 64, 2)] @ (bottleneck_unit, 512, 128, 2) # take k []) =
             Inr st'' \<and>
             current_stride st'' = current_stride st)
     else rat_of_int (current_stride st) < number_value (PyFloat 2) \<and>
          (\<exists>x. bottleneck_unit (stack_net st) 512 128 2 1 (conv_args True None) = Inr x \<and>
             st' = st\<lparr>stack_net := x, current_stride := current_stride st * 2\<rparr>)"
    by blast
  from st have c: "current_stride st = 2 \<and> dilation_rate st = 1"
    by (auto simp: bottleneck_unit_def bottleneck_def Let_def spatial_def)
  with step have "\<exists>x. bottleneck_unit (stack_net st) 512 128 1 1 (conv_args True None) = Inr x \<and>
        st' = st\<lparr>stack_net := x, dilation_rate := 2\<rparr>"
    by simp
  with run units pos st c show ?thesis
    by (intro exI[of _ out] exI[of _ st] exI[of _ st']) simp
qed

text \<open>
  The claim as stated fails where a nominal stride takes the cumulative stride past the
  target. With target 2 and units of strides 4 and 2 the cumulative stride is 4 after
  the first unit, the second unit is still applied with its nominal stride (cumulative
  stride 8, rate still 1), and the stacking fails only at the end.
\<close>

theorem stride_overshoot_counterexample:
  "map_sum id current_stride
     (stack_units (Some (PyInt 2)) (conv_args True None)
        \<lparr>stack_net = Placeholder (Some [Some 1, Some 56, Some 56, Some 64]),
           current_stride = 1, dilation_rate = 1\<rparr>
        [(bottleneck_unit, 256, 64, 4)]) = Inr 4 \<and>
   (2::int) < 4 \<and>
   map_sum id (\<lambda>st. (current_stride st, dilation_rate st))
     (stack_units (Some (PyInt 2)) (conv_args True None)
        \<lparr>stack_net = Placeholder (Some [Some 1, Some 56, Some 56, Some 64]),
           current_stride = 1, dilation_rate = 1\<rparr>
        [(bottleneck_unit, 256, 64, 4), (bottleneck_unit, 256, 64, 2)]) = Inr (8, 1) \<and>
   stack_blocks_dense (Placeholder (Some [Some 1, Some 56, Some 56, Some 64]))
     [Block ''block1'' bottleneck_unit [(256, 64, 4), (256, 64, 2)]] (Some (PyInt 2))
     (conv_args True None) = Inl (ValueError ''The target output_stride cannot be reached.'')"
  by (simp add: stack_blocks_dense_def all_units_def bottleneck_unit_def bottleneck_def
        Let_def spatial_def)

text \<open>
  C4. When the target output_stride is unreachable, that is, no prefix of the units (in
  block order, then intra-block order) has the target as the product of its nominal
  strides, block stacking fails. Unless a unit itself raises, every unit is applied
  with its nominal stride, so that the cumulative stride after the last unit is the
  product of all nominal strides, and the failure is the configuration error raised
  after the loop.
\<close>

theorem unreachable_stride_fails:
  assumes "\<forall>n\<le>length (all_units blocks).
             \<not> py_eq (prod_list (map nominal_stride (take n (all_units blocks)))) t"
  shows "(\<exists>e. stack_blocks_dense net blocks (Some t) kwargs = Inl e) \<and>
         (case stack_units (Some t) kwargs
                 \<lparr>stack_net = net, current_stride = 1, dilation_rate = 1\<rparr> (all_units blocks) of
            Inl e \<Rightarrow> stack_blocks_dense net blocks (Some t) kwargs = Inl e
          | Inr st \<Rightarrow>
              current_stride st = prod_list (map nominal_stride (all_units blocks)) \<and>
              stack_blocks_dense net blocks (Some t) kwargs =
                Inl (ValueError ''The target output_stride cannot be reached.''))"
proof (cases "stack_units (Some t) kwargs
                \<lparr>stack_net = net, current_stride = 1, dilation_rate = 1\<rparr> (all_units blocks)")
  case (Inl e)
  then show ?thesis by (simp add: stack_blocks_dense_def)
next
  case (Inr st)
  have "current_stride st = 1 * prod_list (map nominal_stride (all_units blocks))"
    by (rule stack_units_unreachable[OF _ Inr, simplified stack_state.simps])
      (use assms in simp)
  moreover from assms[rule_format, of "length (all_units blocks)"]
  have "\<not> py_eq (prod_list (map nominal_stride (all_units blocks))) t" by simp
  ultimately show ?thesis using Inr by (simp add: stack_blocks_dense_def)
qed

theorem unreachable_stride_fails_witness:
  "stack_blocks_dense (Placeholder (Some [Some 1, Some 56, Some 56, Some 64]))
     [Block ''block1'' bottleneck_unit [(256, 64, 2), (256, 64, 2)]] (Some (PyInt 3))
     (conv_args True None) = Inl (ValueError ''The target output_stride cannot be reached.'') \<and>
   map_sum id current_stride
     (stack_units (Some (PyInt 3)) (conv_args True None)
        \<lparr>stack_net = Placeholder (Some [Some 1, Some 56, Some 56, Some 64]),
           current_stride = 1, dilation_rate = 1\<rparr>
        (all_units [Block ''block1'' bottleneck_unit [(256, 64, 2), (256, 64, 2)]])) = Inr 4"
proof -
  let ?blocks = "[Block ''block1'' bottleneck_unit [(256, 64, 2), (256, 64, 2)]]"
  have h: "\<forall>n\<le>length (all_units ?blocks).
             \<not> py_eq (prod_list (map nominal_stride (take n (all_units ?blocks)))) (PyInt 3)"
  proof (intro allI impI)
    fix n assume "n \<le> length (all_units ?blocks)"
    then have "n = 0 \<or> n = 1 \<or> n = 2" by (auto simp: all_units_def)
    then show "\<not> py_eq (prod_list (map nominal_stride (take n (all_units ?blocks)))) (PyInt 3)"
      by (auto simp: all_units_def nominal_stride_def numeral_2_eq_2)
  qed
  from unreachable_stride_fails[OF h, where kwargs = "conv_args True None"
         and net = "Placeholder (Some [Some 1, Some 56, Some 56, Some 64])"]
  show ?thesis
    by (simp add: all_units_def nominal_stride_def bottleneck_unit_def bottleneck_def Let_def
          spatial_def)
qed


subsection \<open>The network generator\<close>

text \<open>
  C2, as amended. Every call of \<open>resnet_v2\<close> with \<open>include_root_block=True\<close> and an
  output_stride that is not \<open>None\<close> and not a multiple of 4 fails with the
  \<open>ValueError\<close> of line 168, before any block is processed and before anything is
  computed on the input: the result is that error whatever the input tensor and the
  blocks are, also where the stack or a unit would raise an error of its own.
\<close>

theorem output_stride_validated_with_root:
  assumes "s mod 4 \<noteq> 0"
  shows "resnet_v2 coll inputs is_training reuse blocks num_classes global_pool (Some s) True
           name =
         Inl (ValueError ''The output_stride needs to be a multiple of 4.'')"
  using assms by (simp add: resnet_v2_def resnet_v2_features_def)

theorem output_stride_validated_with_root_witness:
  "(6::int) mod 4 \<noteq> 0 \<and>
   resnet_v2 no_activations (Placeholder None) True None resnet_v2_50_blocks None True (Some 6)
     True None =
   Inl (ValueError ''The output_stride needs to be a multiple of 4.'')"
  using
    output_stride_validated_with_root[of 6 no_activations "Placeholder None" True None
      resnet_v2_50_blocks None True None]
  by simp

text \<open>
  The claim as stated fails for \<open>include_root_block=False\<close>: the check of line 167 is
  inside \<open>if include_root_block\<close>. With output_stride 2 and one unit of stride 2 the
  call returns.
\<close>

theorem output_stride_unvalidated_counterexample:
  "(2::int) mod 4 \<noteq> 0 \<and>
   resnet_v2 no_activations (Placeholder (Some [Some 1, Some 56, Some 56, Some 64])) True None
     [Block ''block1'' bottleneck_unit [(256, 64, 2)]] None True (Some 2) False None =
   Inr (PyDict [])"
  by (simp add: resnet_v2_def resnet_v2_features_def stack_blocks_dense_def all_units_def
        bottleneck_unit_def bottleneck_def Let_def end_points_def no_activations_def
        spatial_def split: prod.splits)

text \<open>
  C10. The multiple-of-4 check and the division by 4 are inside \<open>if include_root_block\<close>.
  With \<open>include_root_block=False\<close> the block stack is called on the input tensor with
  the output_stride as it was passed (an int, or \<open>None\<close>), whatever its value. With
  \<open>include_root_block=True\<close> an output_stride that is a multiple of 4 is divided by 4
  by true division, and the block stack is called on the result of the root block with
  the quotient, a float and not an int; the float is the exact quotient for every
  output_stride below \<open>2 ^ 55\<close> in magnitude.
\<close>

theorem output_stride_forwarding:
  "resnet_v2_features inputs is_training reuse blocks output_stride False =
     (case stack_blocks_dense inputs blocks (map_option PyInt output_stride)
             (conv_args is_training reuse) of
        Inl e \<Rightarrow> Inl e
      | Inr net \<Rightarrow>
          Inr (Batch_norm net ''postnorm''
                 (no_args\<lparr>arg_activation := Some Relu, arg_is_training := Some is_training,
                    arg_reuse := reuse\<rparr>))) \<and>
   resnet_v2_features inputs is_training reuse blocks (Some s) True =
     (if s mod 4 \<noteq> 0 then Inl (ValueError ''The output_stride needs to be a multiple of 4.'')
      else case int_to_double (s div 4) of
             Inl e \<Rightarrow> Inl e
           | Inr q \<Rightarrow>
              (case stack_blocks_dense
                      (Max_pool (Conv2d_same inputs 64 7 2 1 ''conv1''
                                   (common_layer_args is_training reuse))
                         ''pool1'' (pool_args is_training reuse))
                      blocks (Some (PyFloat q)) (conv_args is_training reuse) of
                 Inl e \<Rightarrow> Inl e
               | Inr net \<Rightarrow>
                   Inr (Batch_norm net ''postnorm''
                          (no_args\<lparr>arg_activation := Some Relu,
                             arg_is_training := Some is_training, arg_reuse := reuse\<rparr>)))) \<and>
   (s mod 4 = 0 \<and> \<bar>s\<bar> < 2 ^ 55 \<longrightarrow> int_to_double (s div 4) = Inr (of_int s / 4))"
proof (intro conjI)
  show "s mod 4 = 0 \<and> \<bar>s\<bar> < 2 ^ 55 \<longrightarrow> int_to_double (s div 4) = Inr (of_int s / 4)"
  proof
    assume a: "s mod 4 = 0 \<and> \<bar>s\<bar> < 2 ^ 55"
    then obtain k where k: "s = 4 * k" by (auto simp: mod_eq_0_iff_dvd)
    with a have "\<bar>k\<bar> < 2 ^ 53" by (simp add: abs_mult)
    from int_to_double_exact[OF this] show "int_to_double (s div 4) = Inr (of_int s / 4)"
      by (simp add: k)
  qed
qed (simp_all add: resnet_v2_features_def split: sum.splits)

theorem output_stride_forwarding_witness:
  "(\<exists>net. resnet_v2_features (Placeholder (Some [Some 1, Some 56, Some 56, Some 64])) True None
            [Block ''block1'' bottleneck_unit [(256, 64, 6)]] (Some 6) False = Inr net \<and>
      get_shape net = Some [Some 1, Some 10, Some 10, Some 256]) \<and>
   (8::int) mod 4 = 0 \<and> \<bar>8::int\<bar> < 2 ^ 55 \<and>
   int_to_double (8 div 4) = Inr 2 \<and>
   resnet_v2_features (Placeholder (Some [Some 1, Some 224, Some 224, Some 3])) True None
     [Block ''block1'' bottleneck_unit [(256, 64, 2), (256, 64, 2)]] (Some 8) True =
     (case stack_blocks_dense
             (Max_pool (Conv2d_same (Placeholder (Some [Some 1, Some 224, Some 224, Some 3]))
                          64 7 2 1 ''conv1'' (common_layer_args True None))
                ''pool1'' (pool_args True None))
             [Block ''block1'' bottleneck_unit [(256, 64, 2), (256, 64, 2)]] (Some (PyFloat 2))
             (conv_args True None) of
        Inl e \<Rightarrow> Inl e
      | Inr net \<Rightarrow>
          Inr (Batch_norm net ''postnorm''
                 (no_args\<lparr>arg_activation := Some Relu, arg_is_training := Some True,
                    arg_reuse := None\<rparr>)))"
proof -
  let ?x = "Placeholder (Some [Some 1, Some 56, Some 56, Some 64])"
  let ?b = "[Block ''block1'' bottleneck_unit [(256, 64, 6)]]"
  let ?y = "Placeholder (Some [Some 1, Some 224, Some 224, Some 3])"
  let ?c = "[Block ''block1'' bottleneck_unit [(256, 64, 2), (256, 64, 2)]]"
  have run: "\<exists>net. stack_blocks_dense ?x ?b (Some (PyInt 6)) (conv_args True None) = Inr net \<and>
      get_shape net = Some [Some 1, Some 10, Some 10, Some 256]"
    by (simp add: stack_blocks_dense_def all_units_def bottleneck_unit_def bottleneck_def
          Let_def spatial_def)
  note without_root = output_stride_forwarding[of ?x True None ?b "Some 6" 8, THEN conjunct1]
  note with_root = output_stride_forwarding[of ?y True None ?c None 8, THEN conjunct2]
  have a: "\<exists>net. resnet_v2_features ?x True None ?b (Some 6) False = Inr net \<and>
      get_shape net = Some [Some 1, Some 10, Some 10, Some 256]"
    using run unfolding without_root by auto
  have b: "int_to_double (8 div 4) = Inr 2"
    using with_root[THEN conjunct2] by simp
  have c: "resnet_v2_features ?y True None ?c (Some 8) True =
     (case stack_blocks_dense
             (Max_pool (Conv2d_same ?y 64 7 2 1 ''conv1'' (common_layer_args True None))
                ''pool1'' (pool_args True None))
             ?c (Some (PyFloat 2)) (conv_args True None) of
        Inl e \<Rightarrow> Inl e
      | Inr net \<Rightarrow>
          Inr (Batch_norm net ''postnorm''
                 (no_args\<lparr>arg_activation := Some Relu, arg_is_training := Some True,
                    arg_reuse := None\<rparr>)))"
    unfolding with_root[THEN conjunct1] using b by simp
  from a b c show ?thesis by simp
qed


subsection \<open>The variants\<close>

text \<open>
  C7. For each of the four variants (whose constructors call \<open>resnet_v2\<close> with their block
  list and \<open>include_root_block=True\<close>), with output_stride unset, the features before
  pooling and the classification head are downsampled by 32: on an input of shape
  \<open>[b, h, w, c]\<close> they have the shape \<open>[b, (h - 1) div 32 + 1, (w - 1) div 32 + 1, 2048]\<close>.
  The root block contributes the factor 4 (the stride-2 convolution \<open>conv1\<close>, then the
  stride-2 max pool \<open>pool1\<close>); in each of the first three blocks the last unit has
  stride 2 and the others stride 1, and all units of the fourth block have stride 1.
\<close>

theorem variants_downsample_32:
  assumes "blocks \<in> variants" and "get_shape inputs = Some [b, h, w, c]"
  shows "(\<exists>n1 n2 n3. block_strides blocks =
            [replicate n1 1 @ [2], replicate n2 1 @ [2], replicate n3 1 @ [2], replicate 3 1]) \<and>
         get_shape (Max_pool (Conv2d_same inputs 64 7 2 1 ''conv1''
                       (common_layer_args is_training reuse))
                     ''pool1'' (pool_args is_training reuse)) =
           Some [b, spatial 4 h, spatial 4 w, Some 64] \<and>
         (\<exists>net. resnet_v2_features inputs is_training reuse blocks None True = Inr net \<and>
            get_shape net = Some [b, spatial 32 h, spatial 32 w, Some 2048])"
proof (intro conjI)
  show "\<exists>n1 n2 n3. block_strides blocks =
          [replicate n1 1 @ [2], replicate n2 1 @ [2], replicate n3 1 @ [2], replicate 3 1]"
    using assms(1) unfolding variants_def
    by (elim insertE emptyE) (simp only: variant_block_strides, (rule exI)+, rule refl)+
  show "get_shape (Max_pool (Conv2d_same inputs 64 7 2 1 ''conv1''
                       (common_layer_args is_training reuse))
                     ''pool1'' (pool_args is_training reuse)) =
           Some [b, spatial 4 h, spatial 4 w, Some 64]"
    by (rule root_shape[OF assms(2)])
  show "\<exists>net. resnet_v2_features inputs is_training reuse blocks None True = Inr net \<and>
            get_shape net = Some [b, spatial 32 h, spatial 32 w, Some 2048]"
    by (rule variant_features[OF assms])
qed

theorem variants_downsample_32_witness:
  "resnet_v2_101_blocks \<in> variants \<and>
   get_shape (Placeholder (Some [None, Some 224, Some 224, Some 3])) =
     Some [None, Some 224, Some 224, Some 3] \<and>
   block_strides resnet_v2_101_blocks =
     [replicate 2 1 @ [2], replicate 3 1 @ [2], replicate 22 1 @ [2], replicate 3 1] \<and>
   (\<exists>net. resnet_v2_features (Placeholder (Some [None, Some 224, Some 224, Some 3])) True None
            resnet_v2_101_blocks None True = Inr net \<and>
      get_shape net = Some [None, Some 7, Some 7, Some 2048])"
proof -
  have v: "resnet_v2_101_blocks \<in> variants" by (simp add: variants_def)
  have s: "get_shape (Placeholder (Some [None, Some 224, Some 224, Some 3])) =
     Some [None, Some 224, Some 224, Some 3]" by simp
  from variants_downsample_32[OF v s, of True None] v show ?thesis
    by (simp add: spatial_def variant_block_strides)
qed

text \<open>
  C8. Each of the four variants has four blocks, and every unit of the fourth block has
  output depth 2048. Whenever the call of a variant on a \<open>[b, h, w, c]\<close> input gets past
  the block stack (whatever the output_stride), the output of the final block, and with
  it the normalised features, has channel depth 2048.
\<close>

theorem variants_final_depth:
  assumes "blocks \<in> variants"
      and "get_shape inputs = Some [b, h, w, c]"
      and "resnet_v2_features inputs is_training reuse blocks output_stride True = Inr net"
  shows "length blocks = 4 \<and> block_depths blocks ! 3 = [2048, 2048, 2048] \<and>
         (\<exists>x h' w'. net = Batch_norm x ''postnorm''
                      (no_args\<lparr>arg_activation := Some Relu, arg_is_training := Some is_training,
                         arg_reuse := reuse\<rparr>) \<and>
            get_shape x = Some [b, h', w', Some 2048] \<and>
            get_shape net = Some [b, h', w', Some 2048])"
proof (intro conjI)
  show "length blocks = 4" using assms(1) by (auto simp: variants_def variant_defs)
  show "block_depths blocks ! 3 = [2048, 2048, 2048]"
    using assms(1) by (auto simp: variants_def variant_defs block_depths_def numeral_3_eq_3)
  let ?root = "Max_pool (Conv2d_same inputs 64 7 2 1 ''conv1''
                 (common_layer_args is_training reuse)) ''pool1'' (pool_args is_training reuse)"
  have root: "get_shape ?root = Some [b, spatial 4 h, spatial 4 w, Some 64]"
    by (rule root_shape[OF assms(2)])
  from assms(3) obtain t x where
    x: "stack_blocks_dense ?root blocks t (conv_args is_training reuse) = Inr x"
    and net: "net = Batch_norm x ''postnorm''
                      (no_args\<lparr>arg_activation := Some Relu, arg_is_training := Some is_training,
                         arg_reuse := reuse\<rparr>)"
    by (auto simp: resnet_v2_features_def split: sum.splits option.splits if_splits)
  from variant_stack[OF assms(1) root, of t "conv_args is_training reuse"] x
  have "\<exists>h' w'. get_shape x = Some [b, h', w', Some 2048]"
    by (auto simp: stack_blocks_dense_def split: if_splits)
  with net show "\<exists>x h' w'. net = Batch_norm x ''postnorm''
                      (no_args\<lparr>arg_activation := Some Relu, arg_is_training := Some is_training,
                         arg_reuse := reuse\<rparr>) \<and>
            get_shape x = Some [b, h', w', Some 2048] \<and>
            get_shape net = Some [b, h', w', Some 2048]"
    by auto
qed

theorem variants_final_depth_witness:
  "\<exists>net h' w'.
     resnet_v2_200_blocks \<in> variants \<and>
     resnet_v2_features (Placeholder (Some [Some 4, Some 321, Some 321, Some 3])) False None
       resnet_v2_200_blocks None True = Inr net \<and>
     length resnet_v2_200_blocks = 4 \<and>
     block_depths resnet_v2_200_blocks ! 3 = [2048, 2048, 2048] \<and>
     get_shape net = Some [Some 4, h', w', Some 2048]"
proof -
  let ?x = "Placeholder (Some [Some 4, Some 321, Some 321, Some 3])"
  have v: "resnet_v2_200_blocks \<in> variants" by (simp add: variants_def)
  have s: "get_shape ?x = Some [Some 4, Some 321, Some 321, Some 3]" by simp
  from variant_features[OF v s, of False None] obtain net where
    net: "resnet_v2_features ?x False None resnet_v2_200_blocks None True = Inr net"
    by blast
  from variants_final_depth[OF v s net] v net show ?thesis by blast
qed

end
